theory Spec2Isabelle
  imports Complex_Main "HOL-Library.List_Lexorder" "HOL-Library.Char_ord"
begin

unbundle bit_operations_syntax

section \<open>The object space of hippy/objspace.py\<close>

subsection \<open>Values, references and the heap\<close>

text \<open>
  Every PHP value is a Python object with an identity (\<open>is\<close> is used by the comparator),
  so objects live in a heap and are named by addresses. A \<open>W_Reference\<close> is a one-slot
  cell holding a value that is not itself a reference; \<open>deref\<close> unwraps it once and is the
  identity on every other object. A handle is what a Python variable \<open>w_obj\<close> holds:
  either an object or a reference cell.
\<close>

type_synonym addr = nat

datatype handle = Obj addr | Ref addr

text \<open>
  A float is represented by the exact value it denotes; comparisons follow IEEE-754
  (\<open>NaN\<close> is unordered and unequal to itself, the zeros are equal). The conversion of an
  integer to a float rounds to the nearest double (\<open>float_of_int\<close> below); the float read
  from a decimal literal is kept exact.
\<close>

datatype pyfloat = Fin rat | PosInf | NegInf | NaN

text \<open>
  Python's \<open>float(i)\<close> on an integer: the nearest number with a significand of 53 bits,
  ties going to the even significand. Machine integers are far below the largest double,
  so the result is finite.
\<close>

function bit_length :: "int \<Rightarrow> nat" where
  "bit_length n = (if n \<le> 0 then 0 else Suc (bit_length (n div 2)))"
  by pat_completeness auto
termination
  by (relation "measure nat") auto

definition round_to_double :: "int \<Rightarrow> int" where
  "round_to_double n =
     (if bit_length n \<le> 53 then n
      else
        (let e = bit_length n - 53; q = n div 2 ^ e; r = n mod 2 ^ e; half = 2 ^ (e - 1)
         in (if r > half \<or> (r = half \<and> odd q) then q + 1 else q) * 2 ^ e))"

definition float_of_int :: "int \<Rightarrow> pyfloat" where
  "float_of_int i =
     Fin (if i < 0 then - of_int (round_to_double (- i)) else of_int (round_to_double i))"

datatype number = NInt int | NFloat pyfloat

datatype key = IntKey int | StrKey string

datatype res_kind = FileResource | DirResource | StreamContext | MysqlLinkResource
  | MysqlResultResource | XMLParserResource | McryptResource

record klass =
  klass_id :: nat
  klass_name :: string

datatype obj =
    W_IntObject int
  | W_FloatObject pyfloat
  | W_StringObject string
  | W_ArrayObject "(key \<times> handle) list"
  | W_NullObject
  | W_BoolObject bool
  | W_InstanceObject klass "(string \<times> handle) list"
  | W_Resource res_kind int
  | W_Constant
  | DelayedClassConstant

record heap =
  objs :: "addr \<Rightarrow> obj"
  cells :: "addr \<Rightarrow> addr"

definition deref :: "heap \<Rightarrow> handle \<Rightarrow> addr" where
  "deref h w = (case w of Obj a \<Rightarrow> a | Ref r \<Rightarrow> cells h r)"

definition deref_obj :: "heap \<Rightarrow> handle \<Rightarrow> obj" where
  "deref_obj h w = objs h (deref h w)"

datatype error = IndexError | ValueError | KeyError | AttributeError | StopIteration
  | AssertionError | InvalidCallback string

datatype diag = Notice string | Warn string | Fatal string

text \<open>The execution context: the diagnostics the host interpreter has been sent, oldest first.\<close>

type_synonym ec = "diag list"

definition warn :: "ec \<Rightarrow> string \<Rightarrow> ec" where
  "warn e msg = e @ [Warn msg]"

text \<open>
  The host seam: what the object space asks of code outside objspace.py and the spec
  leaves to the host. \<open>host_int_w\<close>, \<open>host_float_w\<close> and \<open>host_str\<close> are \<open>int_w\<close>,
  \<open>float_w\<close> and \<open>str\<close> of an object that is not an integer, a number, a string;
  \<open>host_as_number\<close> is the numeric projection of objects, resources and constants;
  \<open>host_compare\<close> is an instance's own \<open>compare\<close> method, \<open>None\<close> when it raises
  \<open>InlineObjectComparison\<close>; \<open>jit_isconstant\<close> is the hint \<open>jit.isconstant\<close>. The rest is
  the interpreter behind \<open>self.ec.interpreter\<close>, as far as the callback resolver asks it:
  function and class lookup and method lookup with its visibility check. A method lookup
  that raises \<open>VisibilityError\<close> is \<open>Inl\<close> of the text its \<open>msg_callback\<close> gives;
  \<open>static_method\<close> is \<open>getstaticmeth\<close> followed by \<open>bind\<close>. A callable is opaque and
  named by a number.
\<close>

type_synonym callable = nat

record host =
  host_int_w :: "obj \<Rightarrow> int"
  host_float_w :: "obj \<Rightarrow> pyfloat"
  host_str :: "obj \<Rightarrow> string"
  host_as_number :: "obj \<Rightarrow> number"
  host_compare :: "addr \<Rightarrow> addr \<Rightarrow> bool \<Rightarrow> int option"
  jit_isconstant :: "nat \<Rightarrow> bool"
  lookup_function :: "string \<Rightarrow> callable option"
  lookup_class_or_intf :: "string \<Rightarrow> klass option"
  static_method :: "klass \<Rightarrow> string \<Rightarrow> string + callable"
  instance_method :: "addr \<Rightarrow> string \<Rightarrow> string + callable"
  get_callable :: "addr \<Rightarrow> callable option"

text \<open>A host that knows no function, class or method, for concrete runs.\<close>

definition empty_host :: host where
  "empty_host =
     \<lparr>host_int_w = (\<lambda>_. 0), host_float_w = (\<lambda>_. Fin 0), host_str = (\<lambda>_. []),
      host_as_number = (\<lambda>_. NInt 0), host_compare = (\<lambda>_ _ _. None),
      jit_isconstant = (\<lambda>_. False),
      lookup_function = (\<lambda>_. None), lookup_class_or_intf = (\<lambda>_. None),
      static_method = (\<lambda>_ _. Inl []), instance_method = (\<lambda>_ _. Inl []),
      get_callable = (\<lambda>_. None)\<rparr>"

subsection \<open>Type tags and type names\<close>

fun res_tp :: "res_kind \<Rightarrow> nat" where
  "res_tp FileResource = 7"
| "res_tp DirResource = 8"
| "res_tp StreamContext = 9"
| "res_tp MysqlLinkResource = 10"
| "res_tp MysqlResultResource = 11"
| "res_tp XMLParserResource = 14"
| "res_tp McryptResource = 15"

fun tp :: "obj \<Rightarrow> nat" where
  "tp (W_IntObject _) = 0"
| "tp (W_FloatObject _) = 1"
| "tp (W_StringObject _) = 2"
| "tp (W_ArrayObject _) = 3"
| "tp W_NullObject = 4"
| "tp (W_BoolObject _) = 5"
| "tp (W_InstanceObject _ _) = 6"
| "tp (W_Resource k _) = res_tp k"
| "tp W_Constant = 12"
| "tp DelayedClassConstant = 13"

definition tp_int :: nat where "tp_int = 0"
definition tp_float :: nat where "tp_float = 1"
definition tp_str :: nat where "tp_str = 2"
definition tp_array :: nat where "tp_array = 3"
definition tp_null :: nat where "tp_null = 4"
definition tp_bool :: nat where "tp_bool = 5"
definition tp_object :: nat where "tp_object = 6"

definition TYPENAMES :: "string list" where
  "TYPENAMES = [''integer'', ''double'', ''string'', ''array'', ''NULL'', ''boolean'',
     ''object'', ''resource'', ''resource'', ''resource'',
     ''resource'', ''resource'', ''constant'', ''delayed constant'',
     ''resource'', ''resource'']"

text \<open>Python's \<open>str.lower\<close> on a byte string: the letters A to Z move to a to z.\<close>

definition lower_char :: "char \<Rightarrow> char" where
  "lower_char c = (if CHR ''A'' \<le> c \<and> c \<le> CHR ''Z'' then char_of (of_char c + (32::nat)) else c)"

definition lower :: "string \<Rightarrow> string" where
  "lower s = map lower_char s"

text \<open>Indexing the table with a tag outside \<open>range(16)\<close> raises \<open>IndexError\<close>.\<close>

definition get_type_name :: "nat \<Rightarrow> error + string" where
  "get_type_name t = (if t < length TYPENAMES then Inr (lower (TYPENAMES ! t)) else Inl IndexError)"

definition gettypename :: "heap \<Rightarrow> handle \<Rightarrow> error + string" where
  "gettypename h w_obj =
     (let w = deref_obj h w_obj in
      case w of
        W_InstanceObject k _ \<Rightarrow> Inr (''instance of '' @ klass_name k)
      | _ \<Rightarrow> (if tp w < length TYPENAMES then Inr (lower (TYPENAMES ! tp w)) else Inl IndexError))"

subsection \<open>Coercions\<close>

definition PHP_WHITESPACE :: "char list" where
  "PHP_WHITESPACE = [CHR '' '', CHR 0x09, CHR 0x0A, CHR 0x0D, CHR 0x0B, CHR 0x00]"

definition is_digit :: "char \<Rightarrow> bool" where
  "is_digit c = (CHR ''0'' \<le> c \<and> c \<le> CHR ''9'')"

definition digit_val :: "char \<Rightarrow> nat" where
  "digit_val c = of_char c - of_char (CHR ''0'')"

definition digits_val :: "string \<Rightarrow> nat" where
  "digits_val ds = foldl (\<lambda>acc c. 10 * acc + digit_val c) 0 ds"

text \<open>
  Python's \<open>int(s)\<close> on a string of digits and signs, the only strings the scanner below
  builds: an optional single sign and at least one digit, anything else raises
  \<open>ValueError\<close>. Integers are unbounded here, as Python's are.
\<close>

definition all_digits :: "string \<Rightarrow> bool" where
  "all_digits ds = (ds \<noteq> [] \<and> list_all is_digit ds)"

definition py_int :: "string \<Rightarrow> error + int" where
  "py_int s =
     (case s of
        [] \<Rightarrow> Inl ValueError
      | c # r \<Rightarrow>
          if c = CHR ''-'' then (if all_digits r then Inr (- int (digits_val r)) else Inl ValueError)
          else if c = CHR ''+'' then (if all_digits r then Inr (int (digits_val r)) else Inl ValueError)
          else if all_digits s then Inr (int (digits_val s)) else Inl ValueError)"

text \<open>
  \<open>_force_int_from_str\<close>: the first loop skips the bytes of \<open>PHP_WHITESPACE\<close>, the second
  collects bytes while they are digits or signs, at any position.
\<close>

definition u_force_int_from_str :: "string \<Rightarrow> error + int" where
  "u_force_int_from_str s =
     (let rest = dropWhile (\<lambda>c. c \<in> set PHP_WHITESPACE) s;
          decstr = takeWhile (\<lambda>c. is_digit c \<or> c = CHR ''-'' \<or> c = CHR ''+'') rest
      in if decstr = [] then Inr 0 else py_int decstr)"

text \<open>
  Modelled from the spec: \<open>convert_string_to_number\<close> of hippy.objects.convert is not in
  objspace.py. The parser skips leading whitespace, reads an optional sign, decimal digits
  with an optional single point and an optional exponent, and stops at the first byte that
  does not fit; an empty prefix is \<open>Int 0\<close>. The flag says that a number was read and the
  whole input was consumed. A literal without point and exponent is an integer, any other
  a float.
\<close>

definition take_sign :: "string \<Rightarrow> bool \<times> string" where
  "take_sign s =
     (case s of
        [] \<Rightarrow> (False, [])
      | c # r \<Rightarrow> if c = CHR ''-'' then (True, r) else if c = CHR ''+'' then (False, r) else (False, s))"

definition take_exponent :: "string \<Rightarrow> (int \<times> string) option" where
  "take_exponent s =
     (case s of
        [] \<Rightarrow> None
      | c # r \<Rightarrow>
          if c = CHR ''e'' \<or> c = CHR ''E'' then
            (let (neg, r1) = take_sign r; ds = takeWhile is_digit r1
             in if ds = [] then None
                else Some ((if neg then - int (digits_val ds) else int (digits_val ds)),
                           dropWhile is_digit r1))
          else None)"

definition scale10 :: "rat \<Rightarrow> int \<Rightarrow> rat" where
  "scale10 q e = (if 0 \<le> e then q * 10 ^ nat e else q / 10 ^ nat (- e))"

definition convert_string_to_number :: "string \<Rightarrow> number \<times> bool" where
  "convert_string_to_number s =
     (let s0 = dropWhile (\<lambda>c. c \<in> set PHP_WHITESPACE) s;
          (neg, s1) = take_sign s0;
          ip = takeWhile is_digit s1;
          s2 = dropWhile is_digit s1;
          (has_point, fp, s3) =
            (case s2 of
               [] \<Rightarrow> (False, [], s2)
             | c # r \<Rightarrow> if c = CHR ''.'' then (True, takeWhile is_digit r, dropWhile is_digit r)
                         else (False, [], s2))
      in if ip = [] \<and> fp = [] then (NInt 0, False)
         else
           (let (ex, s4) = (case take_exponent s3 of None \<Rightarrow> (None, s3) | Some (e, r) \<Rightarrow> (Some e, r));
                mant = of_nat (digits_val (ip @ fp)) / 10 ^ length fp;
                signed = (if neg then - mant else mant)
            in if \<not> has_point \<and> ex = None
               then (NInt (if neg then - int (digits_val ip) else int (digits_val ip)), s4 = [])
               else (NFloat (Fin (scale10 signed (case ex of None \<Rightarrow> 0 | Some e \<Rightarrow> e))), s4 = [])))"

text \<open>
  Modelled from the spec: the methods \<open>as_number\<close> and \<open>is_true\<close> of the value classes
  are not in objspace.py. The rules are those of the coercion kernel; the numeric
  projection of an object, a resource or a constant is the host's.
\<close>

definition as_number :: "host \<Rightarrow> obj \<Rightarrow> number" where
  "as_number hst w =
     (case w of
        W_NullObject \<Rightarrow> NInt 0
      | W_BoolObject b \<Rightarrow> NInt (if b then 1 else 0)
      | W_IntObject i \<Rightarrow> NInt i
      | W_FloatObject f \<Rightarrow> NFloat f
      | W_StringObject s \<Rightarrow> fst (convert_string_to_number s)
      | W_ArrayObject items \<Rightarrow> NInt (if items = [] then 0 else 1)
      | _ \<Rightarrow> host_as_number hst w)"

definition is_true :: "obj \<Rightarrow> bool" where
  "is_true w =
     (case w of
        W_BoolObject b \<Rightarrow> b
      | W_NullObject \<Rightarrow> False
      | W_IntObject i \<Rightarrow> i \<noteq> 0
      | W_FloatObject f \<Rightarrow> f \<noteq> Fin 0 \<and> f \<noteq> NaN
      | W_StringObject s \<Rightarrow> s \<noteq> [] \<and> s \<noteq> ''0''
      | W_ArrayObject items \<Rightarrow> items \<noteq> []
      | _ \<Rightarrow> True)"

text \<open>
  Modelled from the spec: the accessors \<open>int_w\<close>, \<open>float_w\<close> and \<open>str\<close> of the value
  classes are not in objspace.py. An integer gives its value, as an integer or converted
  to a float, a float gives its value and a string its bytes; on any other object the
  answer is the host's.
\<close>

definition int_w :: "host \<Rightarrow> obj \<Rightarrow> int" where
  "int_w hst w = (case w of W_IntObject i \<Rightarrow> i | _ \<Rightarrow> host_int_w hst w)"

definition float_w :: "host \<Rightarrow> obj \<Rightarrow> pyfloat" where
  "float_w hst w =
     (case w of W_FloatObject f \<Rightarrow> f | W_IntObject i \<Rightarrow> float_of_int i | _ \<Rightarrow> host_float_w hst w)"

definition str_w :: "host \<Rightarrow> obj \<Rightarrow> string" where
  "str_w hst w = (case w of W_StringObject s \<Rightarrow> s | _ \<Rightarrow> host_str hst w)"

definition wrap_number :: "number \<Rightarrow> obj" where
  "wrap_number n = (case n of NInt i \<Rightarrow> W_IntObject i | NFloat f \<Rightarrow> W_FloatObject f)"

text \<open>\<open>force_int\<close> reads the tag of its argument as it is given, without \<open>deref\<close>.\<close>

definition force_int :: "host \<Rightarrow> obj \<Rightarrow> error + int" where
  "force_int hst w_obj =
     (case w_obj of
        W_StringObject s \<Rightarrow> u_force_int_from_str s
      | W_IntObject i \<Rightarrow> Inr (int_w hst w_obj)
      | _ \<Rightarrow> Inr (int_w hst (wrap_number (as_number hst w_obj))))"

subsection \<open>Modulo, shifts and bitwise operators\<close>

text \<open>
  \<open>left % right\<close> is Python's remainder, which has the sign of the divisor, as \<open>mod\<close> on
  \<open>int\<close> has; the code guards the zero divisor before it.
\<close>

definition u_mod :: "ec \<Rightarrow> int \<Rightarrow> int \<Rightarrow> obj \<times> ec" where
  "u_mod e left right =
     (if right = 0 then (W_BoolObject False, warn e ''Division by zero'')
      else if right = - 1 then (W_IntObject 0, e)
      else
        (let z = left mod right;
             z' = (if z \<noteq> 0 \<and> ((left < 0 \<and> right > 0) \<or> (left > 0 \<and> right < 0))
                   then z - right else z)
         in (W_IntObject z', e)))"

definition mod_op :: "host \<Rightarrow> ec \<Rightarrow> obj \<Rightarrow> obj \<Rightarrow> error + (obj \<times> ec)" where
  "mod_op hst e w_left w_right =
     (case force_int hst w_left of
        Inl err \<Rightarrow> Inl err
      | Inr left \<Rightarrow>
          (case force_int hst w_right of
             Inl err \<Rightarrow> Inl err
           | Inr right \<Rightarrow> Inr (u_mod e left right)))"

text \<open>
  The target: \<open>sys.maxint\<close> is \<open>2^31 - 1\<close> or \<open>2^63 - 1\<close>. \<open>intmask\<close> (rpython.rlib.rarithmetic)
  truncates an integer to the signed machine word.
\<close>

datatype target = Bits32 | Bits64

fun LONG_BIT :: "target \<Rightarrow> nat" where
  "LONG_BIT Bits32 = 32"
| "LONG_BIT Bits64 = 64"

definition maxint :: "target \<Rightarrow> int" where
  "maxint t = 2 ^ (LONG_BIT t - 1) - 1"

definition MASK_31_63 :: "target \<Rightarrow> int" where
  "MASK_31_63 t = (if maxint t = 2 ^ 31 - 1 then 31 else 63)"

definition intmask :: "target \<Rightarrow> int \<Rightarrow> int" where
  "intmask t n =
     (let m = n mod 2 ^ LONG_BIT t
      in if m \<ge> 2 ^ (LONG_BIT t - 1) then m - 2 ^ LONG_BIT t else m)"

definition lshift :: "target \<Rightarrow> host \<Rightarrow> obj \<Rightarrow> obj \<Rightarrow> error + obj" where
  "lshift t hst w_left w_right =
     (case force_int hst w_left of
        Inl err \<Rightarrow> Inl err
      | Inr left \<Rightarrow>
          (case force_int hst w_right of
             Inl err \<Rightarrow> Inl err
           | Inr right \<Rightarrow>
               Inr (W_IntObject (intmask t (push_bit (nat (right AND MASK_31_63 t)) left)))))"

definition rshift :: "target \<Rightarrow> host \<Rightarrow> obj \<Rightarrow> obj \<Rightarrow> error + obj" where
  "rshift t hst w_left w_right =
     (case force_int hst w_left of
        Inl err \<Rightarrow> Inl err
      | Inr left \<Rightarrow>
          (case force_int hst w_right of
             Inl err \<Rightarrow> Inl err
           | Inr right \<Rightarrow>
               Inr (W_IntObject (intmask t (drop_bit (nat (right AND MASK_31_63 t)) left)))))"

definition ord :: "char \<Rightarrow> nat" where
  "ord c = of_char c"

definition chr :: "nat \<Rightarrow> char" where
  "chr n = char_of n"

definition or_string :: "string \<Rightarrow> string \<Rightarrow> obj" where
  "or_string l r =
     (let (left, right) = (if length l < length r then (r, l) else (l, r))
      in W_StringObject
           (map (\<lambda>i. chr (ord (left ! i) OR ord (right ! i))) [0..<length right]
            @ map (\<lambda>i. left ! i) [length right..<length left]))"

definition or_op :: "host \<Rightarrow> obj \<Rightarrow> obj \<Rightarrow> obj" where
  "or_op hst w_left w_right =
     (case (w_left, w_right) of
        (W_StringObject l, W_StringObject r) \<Rightarrow> or_string l r
      | _ \<Rightarrow> W_IntObject (int_w hst w_left OR int_w hst w_right))"

text \<open>
  \<open>_new_bitwise(name)\<close> builds \<open>and_\<close> and \<open>xor\<close> from \<open>operator.and_\<close> and
  \<open>operator.xor\<close>; the operator is a parameter, on bytes for strings and on integers.
\<close>

definition string_func :: "(nat \<Rightarrow> nat \<Rightarrow> nat) \<Rightarrow> string \<Rightarrow> string \<Rightarrow> obj" where
  "string_func bitwise_op left right =
     (let n = min (length left) (length right)
      in W_StringObject (map (\<lambda>i. chr (bitwise_op (ord (left ! i)) (ord (right ! i)))) [0..<n]))"

definition new_bitwise ::
  "(nat \<Rightarrow> nat \<Rightarrow> nat) \<Rightarrow> (int \<Rightarrow> int \<Rightarrow> int) \<Rightarrow> host \<Rightarrow> obj \<Rightarrow> obj \<Rightarrow> obj" where
  "new_bitwise byte_op int_op hst w_left w_right =
     (case (w_left, w_right) of
        (W_StringObject l, W_StringObject r) \<Rightarrow> string_func byte_op l r
      | _ \<Rightarrow> W_IntObject (int_op (int_w hst w_left) (int_w hst w_right)))"

definition and_op :: "host \<Rightarrow> obj \<Rightarrow> obj \<Rightarrow> obj" where
  "and_op = new_bitwise (AND) (AND)"

definition xor_op :: "host \<Rightarrow> obj \<Rightarrow> obj \<Rightarrow> obj" where
  "xor_op = new_bitwise (XOR) (XOR)"

text \<open>
  The remainder as the spec words it, \<open>r = l - trunc(l/r)*r\<close>, with the quotient
  truncated toward zero.
\<close>

definition trunc_quot :: "int \<Rightarrow> int \<Rightarrow> int" where
  "trunc_quot l r = sgn l * sgn r * (\<bar>l\<bar> div \<bar>r\<bar>)"

definition trunc_rem :: "int \<Rightarrow> int \<Rightarrow> int" where
  "trunc_rem l r = l - trunc_quot l r * r"

subsection \<open>Arrays: construction and slicing\<close>

text \<open>
  Modelled from the spec: the array container (hippy.objects.arrayobject) is not in
  objspace.py. An array is an ordered mapping: a new key is appended, a key already there
  is overwritten in place. The keys handed over are taken as keys read from an array, so
  already normalised.
\<close>

fun array_set :: "(key \<times> handle) list \<Rightarrow> key \<Rightarrow> handle \<Rightarrow> (key \<times> handle) list" where
  "array_set [] k v = [(k, v)]"
| "array_set ((k', v') # rest) k v =
     (if k' = k then (k, v) # rest else (k', v') # array_set rest k v)"

definition new_array_from_pairs :: "(key \<times> handle) list \<Rightarrow> obj" where
  "new_array_from_pairs pairs_ww = W_ArrayObject (foldl (\<lambda>arr (k, v). array_set arr k v) [] pairs_ww)"

definition new_array_from_list :: "handle list \<Rightarrow> obj" where
  "new_array_from_list lst_w = W_ArrayObject (zip (map (\<lambda>i. IntKey (int i)) [0..<length lst_w]) lst_w)"

definition is_str_key :: "key \<Rightarrow> bool" where
  "is_str_key k = (case k of StrKey _ \<Rightarrow> True | IntKey _ \<Rightarrow> False)"

text \<open>
  The loop of \<open>slice\<close> over the iterator of the array, with its three variables
  \<open>idx\<close>, \<open>next_idx\<close> and \<open>res_arr\<close>.
\<close>

fun slice_loop ::
  "int \<Rightarrow> int \<Rightarrow> bool \<Rightarrow> bool \<Rightarrow> (key \<times> handle) list \<Rightarrow> int \<Rightarrow> int \<Rightarrow> (key \<times> handle) list
   \<Rightarrow> (key \<times> handle) list" where
  "slice_loop start shift keep_keys keep_str_keys [] idx next_idx res_arr = res_arr"
| "slice_loop start shift keep_keys keep_str_keys ((w_key, w_value) # itr) idx next_idx res_arr =
     (if start \<le> idx \<and> idx < start + shift then
        (if keep_keys then
           slice_loop start shift keep_keys keep_str_keys itr (idx + 1) next_idx
             (res_arr @ [(w_key, w_value)])
         else if keep_str_keys then
           (if is_str_key w_key then
              slice_loop start shift keep_keys keep_str_keys itr (idx + 1) next_idx
                (res_arr @ [(w_key, w_value)])
            else
              slice_loop start shift keep_keys keep_str_keys itr (idx + 1) (next_idx + 1)
                (res_arr @ [(IntKey next_idx, w_value)]))
         else
           slice_loop start shift keep_keys keep_str_keys itr (idx + 1) (next_idx + 1)
             (res_arr @ [(IntKey next_idx, w_value)]))
      else slice_loop start shift keep_keys keep_str_keys itr (idx + 1) next_idx res_arr)"

text \<open>
  \<open>slice\<close>: the array \<open>w_arr\<close> is given by the items of the array it derefs to;
  \<open>arraylen\<close> is their number and the iterator yields them in insertion order.
\<close>

definition slice :: "(key \<times> handle) list \<Rightarrow> int \<Rightarrow> int \<Rightarrow> bool \<Rightarrow> bool \<Rightarrow> obj" where
  "slice w_arr start shift keep_keys keep_str_keys =
     (let arraylen = int (length w_arr) in
      if shift = 0 then new_array_from_list []
      else if arraylen = 0 then new_array_from_list []
      else if start > arraylen then new_array_from_list []
      else
        (let start' = (if start < 0 then arraylen + start else start);
             shift' = (if shift < 0 then arraylen + shift - start' else shift)
         in new_array_from_pairs (slice_loop start' shift' keep_keys keep_str_keys w_arr 0 0 [])))"

subsection \<open>Callback resolution\<close>

text \<open>\<open>name.find('::')\<close>: the first position of the separator, \<open>None\<close> for Python's -1.\<close>

fun find_sep :: "string \<Rightarrow> nat option" where
  "find_sep [] = None"
| "find_sep [c] = None"
| "find_sep (c # d # r) =
     (if c = CHR '':'' \<and> d = CHR '':'' then Some 0
      else (case find_sep (d # r) of None \<Rightarrow> None | Some p \<Rightarrow> Some (Suc p)))"

definition is_clsname_start :: "char \<Rightarrow> bool" where
  "is_clsname_start c =
     ((CHR ''a'' \<le> c \<and> c \<le> CHR ''z'') \<or> (CHR ''A'' \<le> c \<and> c \<le> CHR ''Z'') \<or> c = CHR ''_''
      \<or> c = CHR 0x5C)"

definition is_clsname_char :: "char \<Rightarrow> bool" where
  "is_clsname_char c =
     ((CHR ''a'' \<le> c \<and> c \<le> CHR ''z'') \<or> (CHR ''A'' \<le> c \<and> c \<le> CHR ''Z'') \<or> c = CHR ''_''
      \<or> (CHR ''0'' \<le> c \<and> c \<le> CHR ''9'') \<or> c = CHR 0x5C)"

definition is_valid_clsname :: "string \<Rightarrow> bool" where
  "is_valid_clsname name =
     (case name of
        [] \<Rightarrow> False
      | c # r \<Rightarrow> if \<not> is_clsname_start c then False else list_all is_clsname_char r)"

definition u_get_callback_from_class :: "host \<Rightarrow> string \<Rightarrow> string \<Rightarrow> error + callable" where
  "u_get_callback_from_class hst clsname methname =
     (case lookup_class_or_intf hst clsname of
        None \<Rightarrow> Inl (InvalidCallback (''class '' @ [CHR 0x27] @ clsname @ [CHR 0x27] @ '' not found''))
      | Some k \<Rightarrow>
          (case static_method hst k methname of
             Inl msg \<Rightarrow> Inl (InvalidCallback msg)
           | Inr meth \<Rightarrow> Inr meth))"

definition u_get_callback_from_string :: "host \<Rightarrow> string \<Rightarrow> error + callable" where
  "u_get_callback_from_string hst name =
     (case find_sep name of
        Some pos \<Rightarrow> u_get_callback_from_class hst (take pos name) (drop (pos + 2) name)
      | None \<Rightarrow>
          (case lookup_function hst name of
             Some func \<Rightarrow> Inr func
           | None \<Rightarrow>
               Inl (InvalidCallback (''function '' @ [CHR 0x27] @ name @ [CHR 0x27]
                      @ '' not found or invalid function name''))))"

definition u_get_callback_from_instance :: "host \<Rightarrow> addr \<Rightarrow> string \<Rightarrow> error + callable" where
  "u_get_callback_from_instance hst w_instance methname =
     (case instance_method hst w_instance methname of
        Inl msg \<Rightarrow> Inl (InvalidCallback msg)
      | Inr meth \<Rightarrow> Inr meth)"

text \<open>
  Modelled from the spec: \<open>getitem\<close> of the array container is not in objspace.py; an
  undefined index yields \<open>Null\<close>. The result is the object read, after \<open>deref\<close>, with its
  address when it is an object of the heap (\<open>None\<close> for the \<open>Null\<close> of a missing index).
\<close>

definition getitem_deref :: "heap \<Rightarrow> (key \<times> handle) list \<Rightarrow> key \<Rightarrow> addr option \<times> obj" where
  "getitem_deref h items k =
     (case map_of items k of
        None \<Rightarrow> (None, W_NullObject)
      | Some w \<Rightarrow> (Some (deref h w), deref_obj h w))"

text \<open>\<open>_get_callback\<close> reads the tag of the object it is given, at address \<open>a\<close>.\<close>

definition u_get_callback :: "host \<Rightarrow> heap \<Rightarrow> addr \<Rightarrow> error + callable" where
  "u_get_callback hst h a =
     (case objs h a of
        W_StringObject name \<Rightarrow> u_get_callback_from_string hst name
      | W_ArrayObject items \<Rightarrow>
          if length items \<noteq> 2 then Inl (InvalidCallback ''array must have exactly two members'')
          else
            (case getitem_deref h items (IntKey 0) of
               (Some i, W_InstanceObject k attrs) \<Rightarrow>
                 u_get_callback_from_instance hst i
                   (str_w hst (snd (getitem_deref h items (IntKey 1))))
             | (_, w_instance) \<Rightarrow>
                 (let clsname = str_w hst w_instance in
                  if \<not> is_valid_clsname clsname
                  then Inl (InvalidCallback ''first array member is not a valid class name or object'')
                  else u_get_callback_from_class hst clsname
                         (str_w hst (snd (getitem_deref h items (IntKey 1))))))
      | W_InstanceObject k attrs \<Rightarrow>
          (case get_callable hst a of
             Some c \<Rightarrow> Inr c
           | None \<Rightarrow> Inl (InvalidCallback ''no array or string given''))
      | _ \<Rightarrow> Inl (InvalidCallback ''no array or string given''))"

text \<open>The \<open>%d\<close> of Python's string formatting.\<close>

fun str_of_nat :: "nat \<Rightarrow> string" where
  "str_of_nat n =
     (if n < 10 then [''0123456789'' ! n]
      else str_of_nat (n div 10) @ [''0123456789'' ! (n mod 10)])"

definition str_of_int :: "int \<Rightarrow> string" where
  "str_of_int i = (if i < 0 then CHR ''-'' # str_of_nat (nat (- i)) else str_of_nat (nat i))"

text \<open>
  \<open>get_callback\<close> catches \<open>InvalidCallback\<close> only; the resolver raises nothing else. The
  null invocable is \<open>None\<close>.
\<close>

definition get_callback ::
  "host \<Rightarrow> heap \<Rightarrow> ec \<Rightarrow> string \<Rightarrow> int \<Rightarrow> addr \<Rightarrow> bool \<Rightarrow> (error + callable option) \<times> ec" where
  "get_callback hst h e fname arg_no w_obj give_warning =
     (case u_get_callback hst h w_obj of
        Inr c \<Rightarrow> (Inr (Some c), e)
      | Inl (InvalidCallback msg) \<Rightarrow>
          (if give_warning
           then (Inr None,
                 warn e (fname @ ''() expects parameter '' @ str_of_int arg_no
                         @ '' to be a valid callback, '' @ msg))
           else (Inr None, e))
      | Inl err \<Rightarrow> (Inl err, e))"

subsection \<open>The comparator\<close>

text \<open>
  \<open>my_cmp\<close> is specialised by the type of its first argument. On integers, booleans, bytes
  and byte strings \<open>==\<close> and \<open><\<close> are equality and the linear order (byte strings are
  ordered lexicographically); on floats they are IEEE's, for which \<open>NaN\<close> is neither equal
  to nor less than anything.
\<close>

definition my_cmp :: "'a::ord \<Rightarrow> 'a \<Rightarrow> bool \<Rightarrow> int" where
  "my_cmp one two ignore_order =
     (if one = two then 0 else if ignore_order \<or> one < two then - 1 else 1)"

fun float_eq :: "pyfloat \<Rightarrow> pyfloat \<Rightarrow> bool" where
  "float_eq NaN _ = False"
| "float_eq _ NaN = False"
| "float_eq a b = (a = b)"

fun float_lt :: "pyfloat \<Rightarrow> pyfloat \<Rightarrow> bool" where
  "float_lt NaN _ = False"
| "float_lt _ NaN = False"
| "float_lt (Fin x) (Fin y) = (x < y)"
| "float_lt PosInf _ = False"
| "float_lt _ PosInf = True"
| "float_lt _ NegInf = False"
| "float_lt NegInf _ = True"

definition my_cmp_float :: "pyfloat \<Rightarrow> pyfloat \<Rightarrow> bool \<Rightarrow> int" where
  "my_cmp_float one two ignore_order =
     (if float_eq one two then 0 else if ignore_order \<or> float_lt one two then - 1 else 1)"

text \<open>
  \<open>_compare\<close> calls itself on the numbers that \<open>convert_string_to_number\<close> and
  \<open>as_number\<close> have just built. These are fresh integers and floats, so the call takes one
  of the first four branches of \<open>_compare\<close> (with \<open>strict\<close> left at false);
  \<open>compare_numbers\<close> is these four branches.
\<close>

definition compare_numbers :: "number \<Rightarrow> number \<Rightarrow> bool \<Rightarrow> int" where
  "compare_numbers w_left w_right ignore_order =
     (case (w_left, w_right) of
        (NFloat x, NFloat y) \<Rightarrow> my_cmp_float x y ignore_order
      | (NInt i, NFloat y) \<Rightarrow> my_cmp_float (float_of_int i) y ignore_order
      | (NFloat x, NInt j) \<Rightarrow> my_cmp_float x (float_of_int j) ignore_order
      | (NInt i, NInt j) \<Rightarrow> my_cmp i j ignore_order)"

text \<open>Accessors of arrays and instances, applied only where the tag has been checked.\<close>

definition array_items :: "obj \<Rightarrow> (key \<times> handle) list" where
  "array_items w = (case w of W_ArrayObject items \<Rightarrow> items | _ \<Rightarrow> [])"

definition arraylen :: "obj \<Rightarrow> nat" where
  "arraylen w = length (array_items w)"

definition get_instance_attrs :: "obj \<Rightarrow> (string \<times> handle) list" where
  "get_instance_attrs w = (case w of W_InstanceObject k attrs \<Rightarrow> attrs | _ \<Rightarrow> [])"

definition getclass :: "obj \<Rightarrow> nat option" where
  "getclass w = (case w of W_InstanceObject k attrs \<Rightarrow> Some (klass_id k) | _ \<Rightarrow> None)"

text \<open>
  The result of a comparison is \<open>Inr\<close> of the integer returned or \<open>Inl\<close> of the exception
  raised; around it, \<open>None\<close> is a computation that has not returned within its fuel.
\<close>

type_synonym cmp_result = "(error + int) option"

definition ret :: "int \<Rightarrow> cmp_result" where
  "ret i = Some (Inr i)"

definition raise :: "error \<Rightarrow> cmp_result" where
  "raise e = Some (Inl e)"

text \<open>
  The body of \<open>_compare\<close>. The call of \<open>_compare_aggregates\<close> goes through the parameter
  \<open>agg\<close>, which is given the two objects after \<open>deref\<close>.
\<close>

definition compare_body ::
  "(addr \<Rightarrow> addr \<Rightarrow> bool \<Rightarrow> bool \<Rightarrow> cmp_result) \<Rightarrow> host \<Rightarrow> heap \<Rightarrow> handle \<Rightarrow> handle \<Rightarrow> bool \<Rightarrow> bool
   \<Rightarrow> cmp_result" where
  "compare_body agg hst h w_left0 w_right0 strict ignore_order =
     (let l = deref h w_left0; r = deref h w_right0;
          w_left = objs h l; w_right = objs h r;
          left_tp = tp w_left; right_tp = tp w_right
      in
      if strict \<and> left_tp \<noteq> right_tp then ret 1
      else if left_tp = tp_float \<and> right_tp = tp_float then
        ret (my_cmp_float (float_w hst w_left) (float_w hst w_right) ignore_order)
      else if left_tp = tp_int \<and> right_tp = tp_float then
        ret (my_cmp_float (float_w hst w_left) (float_w hst w_right) ignore_order)
      else if left_tp = tp_float \<and> right_tp = tp_int then
        ret (my_cmp_float (float_w hst w_left) (float_w hst w_right) ignore_order)
      else if left_tp = tp_int \<and> right_tp = tp_int then
        ret (my_cmp (int_w hst w_left) (int_w hst w_right) ignore_order)
      else if left_tp = tp_array \<and> right_tp = tp_array then
        (if l = r then ret 0
         else if arraylen w_left < arraylen w_right then ret (- 1)
         else if arraylen w_left > arraylen w_right then ret 1
         else agg l r strict ignore_order)
      else if left_tp = tp_null \<and> right_tp = tp_null then ret 0
      else if left_tp = tp_null \<and> right_tp = tp_bool then
        (if is_true w_right then ret (- 1) else ret 0)
      else if left_tp = tp_bool \<and> right_tp = tp_null then
        (if is_true w_left then ret 1 else ret 0)
      else if left_tp = tp_bool \<and> right_tp = tp_bool then
        ret (my_cmp (is_true w_left) (is_true w_right) ignore_order)
      else if left_tp = tp_str \<and> right_tp = tp_str then
        (let left = str_w hst w_left; right = str_w hst w_right in
         if \<not> strict then
           (if jit_isconstant hst (length left) \<and> length left = 1
               \<and> jit_isconstant hst (length right) \<and> length right = 1
            then ret (my_cmp (ord (left ! 0)) (ord (right ! 0)) ignore_order)
            else
              (let (w_right_num, right_valid) = convert_string_to_number right in
               if right_valid then
                 (let (w_left_num, left_valid) = convert_string_to_number left in
                  if left_valid then ret (compare_numbers w_left_num w_right_num ignore_order)
                  else ret (my_cmp left right ignore_order))
               else ret (my_cmp left right ignore_order)))
         else ret (my_cmp left right ignore_order))
      else if left_tp = tp_null \<and> right_tp = tp_str then
        ret (my_cmp [] (str_w hst w_right) ignore_order)
      else if left_tp = tp_str \<and> right_tp = tp_null then
        ret (my_cmp (str_w hst w_left) [] ignore_order)
      else if left_tp = tp_object \<and> right_tp = tp_null then ret 1
      else if left_tp = tp_null \<and> right_tp = tp_object then ret (- 1)
      else if left_tp = tp_object \<and> right_tp = tp_object then
        (if l = r then ret 0 else agg l r strict ignore_order)
      else
        (if left_tp = tp_null then (if is_true w_right then ret (- 1) else ret 0)
         else if right_tp = tp_null then (if is_true w_left then ret 1 else ret 0)
         else if left_tp = tp_bool \<or> right_tp = tp_bool then
           ret (my_cmp (is_true w_left) (is_true w_right) ignore_order)
         else if left_tp = tp_array then ret 1
         else if right_tp = tp_array then ret (- 1)
         else if left_tp = tp_object then ret 1
         else if right_tp = tp_object then ret (- 1)
         else ret (compare_numbers (as_number hst w_left) (as_number hst w_right) ignore_order)))"

text \<open>
  Python lists used as stacks are kept in Python's order: \<open>append\<close> adds at the end and
  \<open>pop\<close> takes from the end, raising \<open>IndexError\<close> on an empty list. An entry of the
  object stack is an object, a reference cell or the \<open>None\<close> of the deferred verdict.
\<close>

definition pop :: "'a list \<Rightarrow> ('a \<times> 'a list) option" where
  "pop xs = (case rev xs of [] \<Rightarrow> None | x # r \<Rightarrow> Some (x, rev r))"

type_synonym stack = "handle option list"

definition push_pair :: "stack option \<Rightarrow> handle option \<Rightarrow> handle option \<Rightarrow> stack option" where
  "push_pair new_st x y = (case new_st of None \<Rightarrow> Some [x, y] | Some st \<Rightarrow> Some (st @ [x, y]))"

text \<open>
  The loop that empties \<open>new_st\<close> onto the object stack, over the entries in the order in
  which they are popped.
\<close>

fun drain :: "stack \<Rightarrow> stack \<Rightarrow> bool list \<Rightarrow> bool \<Rightarrow> error + (stack \<times> bool list)" where
  "drain [] obj_st strict_st strict = Inr (obj_st, strict_st)"
| "drain [x] obj_st strict_st strict = Inl IndexError"
| "drain (x # y # popped) obj_st strict_st strict =
     drain popped (obj_st @ [x, y]) (strict_st @ [strict]) strict"

text \<open>
  How a pass over the items of a pair of aggregates ends: with a \<open>return\<close>, or by leaving
  the loop (at its end or by \<open>break\<close>) with the three stacks.
\<close>

datatype walk = WReturn cmp_result | WDone "stack option" stack "bool list"

text \<open>
  The fast path of the pass over two arrays: both keys are integers of the same value, or
  both are constant strings of the same bytes.
\<close>

fun same_key :: "key \<Rightarrow> key \<Rightarrow> bool" where
  "same_key (IntKey i) (IntKey j) = (i = j)"
| "same_key (StrKey s) (StrKey t) = (s = t)"
| "same_key _ _ = False"

text \<open>
  Modelled from the spec: \<open>isset_index\<close> and \<open>getitem\<close> of the array container are not in
  objspace.py; both look the key up in the array, here with \<open>map_of\<close>. Reading the right
  iterator past its end raises; the two arrays have the same length where the pass starts.
\<close>

fun array_walk ::
  "(handle \<Rightarrow> handle \<Rightarrow> bool \<Rightarrow> bool \<Rightarrow> cmp_result) \<Rightarrow> heap \<Rightarrow> obj \<Rightarrow> bool \<Rightarrow> bool
   \<Rightarrow> (key \<times> handle) list \<Rightarrow> (key \<times> handle) list \<Rightarrow> stack option \<Rightarrow> stack \<Rightarrow> bool list \<Rightarrow> walk" where
  "array_walk cmp h w_right strict ignore_order [] right_itr new_st obj_st strict_st =
     WDone new_st obj_st strict_st"
| "array_walk cmp h w_right strict ignore_order ((w_key, w_left_val) # left_itr) [] new_st obj_st strict_st =
     WReturn (raise IndexError)"
| "array_walk cmp h w_right strict ignore_order ((w_key, w_left_val) # left_itr)
       ((w_rkey, w_right_val) # right_itr) new_st obj_st strict_st =
     (case (if same_key w_key w_rkey then Some w_right_val
            else map_of (array_items w_right) w_key) of
        None \<Rightarrow>
          if ignore_order then WReturn (ret (- 1))
          else WDone (push_pair new_st None None) obj_st strict_st
      | Some w_right_val' \<Rightarrow>
          (let l = deref h w_left_val; r = deref h w_right_val' in
           if l = r then
             array_walk cmp h w_right strict ignore_order left_itr right_itr new_st obj_st strict_st
           else if (tp (objs h l) = tp_array \<or> tp (objs h l) = tp_object)
                   \<and> (tp (objs h r) = tp_array \<or> tp (objs h r) = tp_object) then
             (if ignore_order then
                array_walk cmp h w_right strict ignore_order left_itr right_itr new_st
                  (obj_st @ [Some (Obj l), Some (Obj r)]) (strict_st @ [strict])
              else
                array_walk cmp h w_right strict ignore_order left_itr right_itr
                  (push_pair new_st (Some (Obj r)) (Some (Obj l))) obj_st strict_st)
           else
             (case cmp (Obj l) (Obj r) strict ignore_order of
                None \<Rightarrow> WReturn None
              | Some (Inl e) \<Rightarrow> WReturn (raise e)
              | Some (Inr cmp_res) \<Rightarrow>
                  if cmp_res \<noteq> 0 then
                    (if ignore_order \<or> new_st = None then WReturn (ret cmp_res)
                     else WDone (push_pair new_st (Some (Obj r)) (Some (Obj l))) obj_st strict_st)
                  else
                    array_walk cmp h w_right strict ignore_order left_itr right_itr new_st
                      obj_st strict_st)))"

text \<open>
  The pass over the attributes of two instances. When the left name is missing on the
  right and a deferred stack exists, the code appends the two values as they are, before
  \<open>deref\<close>, and goes on with the right value read in parallel.
\<close>

fun attrs_walk ::
  "(handle \<Rightarrow> handle \<Rightarrow> bool \<Rightarrow> bool \<Rightarrow> cmp_result) \<Rightarrow> heap \<Rightarrow> (string \<times> handle) list \<Rightarrow> bool \<Rightarrow> bool
   \<Rightarrow> (string \<times> handle) list \<Rightarrow> (string \<times> handle) list \<Rightarrow> stack option \<Rightarrow> stack \<Rightarrow> bool list
   \<Rightarrow> walk" where
  "attrs_walk cmp h right strict ignore_order [] right_attr_itr new_st obj_st strict_st =
     WDone new_st obj_st strict_st"
| "attrs_walk cmp h right strict ignore_order ((key, w_left_val) # left_attr_itr) [] new_st obj_st
       strict_st =
     WReturn (raise StopIteration)"
| "attrs_walk cmp h right strict ignore_order ((key, w_left_val) # left_attr_itr)
       ((r_key, w_right_val) # right_attr_itr) new_st obj_st strict_st =
     (case (if key \<noteq> r_key then
              (case map_of right key of
                 Some v \<Rightarrow> Some (v, new_st)
               | None \<Rightarrow>
                   if ignore_order \<or> new_st = None then None
                   else Some (w_right_val, push_pair new_st (Some w_right_val) (Some w_left_val)))
            else Some (w_right_val, new_st)) of
        None \<Rightarrow> WReturn (ret (- 1))
      | Some (w_right_val', new_st') \<Rightarrow>
          (let l = deref h w_left_val; r = deref h w_right_val' in
           if l = r then
             attrs_walk cmp h right strict ignore_order left_attr_itr right_attr_itr new_st'
               obj_st strict_st
           else if (tp (objs h l) = tp_array \<or> tp (objs h l) = tp_object)
                   \<and> (tp (objs h r) = tp_array \<or> tp (objs h r) = tp_object) then
             (if ignore_order then
                attrs_walk cmp h right strict ignore_order left_attr_itr right_attr_itr new_st'
                  (obj_st @ [Some (Obj l), Some (Obj r)]) (strict_st @ [False])
              else
                attrs_walk cmp h right strict ignore_order left_attr_itr right_attr_itr
                  (push_pair new_st' (Some (Obj r)) (Some (Obj l))) obj_st strict_st)
           else
             (case cmp (Obj l) (Obj r) strict ignore_order of
                None \<Rightarrow> WReturn None
              | Some (Inl e) \<Rightarrow> WReturn (raise e)
              | Some (Inr cmp_res) \<Rightarrow>
                  if cmp_res \<noteq> 0 then
                    (if ignore_order \<or> new_st' = None then WReturn (ret cmp_res)
                     else WDone (push_pair new_st' (Some (Obj r)) (Some (Obj l))) obj_st strict_st)
                  else
                    attrs_walk cmp h right strict ignore_order left_attr_itr right_attr_itr new_st'
                      obj_st strict_st)))"

text \<open>
  One iteration of \<open>while len(obj_st) > 0\<close>: it returns, or goes on with new stacks.
  Reading the tag of a reference cell or of \<open>None\<close> raises \<open>AttributeError\<close>.
\<close>

datatype step = Stop cmp_result | Continue stack "bool list"

definition after_walk :: "bool \<Rightarrow> walk \<Rightarrow> step" where
  "after_walk strict w =
     (case w of
        WReturn res \<Rightarrow> Stop res
      | WDone new_st obj_st strict_st \<Rightarrow>
          (case new_st of
             None \<Rightarrow> Continue obj_st strict_st
           | Some st \<Rightarrow>
               (case drain (rev st) obj_st strict_st strict of
                  Inl e \<Rightarrow> Stop (raise e)
                | Inr (obj_st', strict_st') \<Rightarrow> Continue obj_st' strict_st')))"

definition loop_step ::
  "(handle \<Rightarrow> handle \<Rightarrow> bool \<Rightarrow> bool \<Rightarrow> cmp_result) \<Rightarrow> host \<Rightarrow> heap \<Rightarrow> bool \<Rightarrow> stack \<Rightarrow> bool list \<Rightarrow> step" where
  "loop_step cmp hst h ignore_order obj_st0 strict_st0 =
     (case pop obj_st0 of
        None \<Rightarrow> Stop (raise IndexError)
      | Some (w_right, obj_st1) \<Rightarrow>
     (case pop obj_st1 of
        None \<Rightarrow> Stop (raise IndexError)
      | Some (w_left, obj_st) \<Rightarrow>
     (case pop strict_st0 of
        None \<Rightarrow> Stop (raise IndexError)
      | Some (strict, strict_st) \<Rightarrow>
     (case w_left of
        None \<Rightarrow> if w_right = None then Stop (ret 1) else Stop (raise AssertionError)
      | Some (Ref _) \<Rightarrow> Stop (raise AttributeError)
      | Some (Obj l) \<Rightarrow>
     (case w_right of
        None \<Rightarrow> Stop (raise AttributeError)
      | Some (Ref _) \<Rightarrow> Stop (raise AttributeError)
      | Some (Obj r) \<Rightarrow>
          (let w_l = objs h l; w_r = objs h r; left_tp = tp w_l; right_tp = tp w_r in
           if left_tp = tp_array \<and> right_tp = tp_array then
             (if l = r then Continue obj_st strict_st
              else if arraylen w_l < arraylen w_r then Stop (ret (- 1))
              else if arraylen w_l > arraylen w_r then Stop (ret 1)
              else after_walk strict
                     (array_walk cmp h w_r strict ignore_order (array_items w_l) (array_items w_r)
                        None obj_st strict_st))
           else if left_tp = tp_object \<and> right_tp = tp_object then
             (case host_compare hst l r strict of
                Some res \<Rightarrow> if res \<noteq> 0 then Stop (ret res) else Continue obj_st strict_st
              | None \<Rightarrow>
                  if l = r then Continue obj_st strict_st
                  else if strict \<or> getclass w_l \<noteq> getclass w_r then Stop (ret 1)
                  else
                    (let left = get_instance_attrs w_l; right = get_instance_attrs w_r in
                     if int (length left) - int (length right) < 0 then Stop (ret (- 1))
                     else if int (length left) - int (length right) > 0 then Stop (ret 1)
                     else after_walk False
                            (attrs_walk cmp h right strict ignore_order left right None obj_st
                               strict_st)))
           else
             (case cmp (Obj l) (Obj r) strict ignore_order of
                None \<Rightarrow> Stop None
              | Some (Inl e) \<Rightarrow> Stop (raise e)
              | Some (Inr cmp_res) \<Rightarrow>
                  if cmp_res \<noteq> 0 then Stop (ret cmp_res) else Continue obj_st strict_st)))))))"

text \<open>
  \<open>_compare\<close>, \<open>_compare_aggregates\<close> and its \<open>while\<close> loop, with fuel: every call and
  every iteration of the loop uses one unit, and \<open>None\<close> is the answer of a computation
  that needs more. \<open>_compare_aggregates\<close> is given the two objects after \<open>deref\<close>.
\<close>

fun u_compare :: "nat \<Rightarrow> host \<Rightarrow> heap \<Rightarrow> handle \<Rightarrow> handle \<Rightarrow> bool \<Rightarrow> bool \<Rightarrow> cmp_result"
  and u_compare_aggregates :: "nat \<Rightarrow> host \<Rightarrow> heap \<Rightarrow> addr \<Rightarrow> addr \<Rightarrow> bool \<Rightarrow> bool \<Rightarrow> cmp_result"
  and aggregates_while :: "nat \<Rightarrow> host \<Rightarrow> heap \<Rightarrow> bool \<Rightarrow> stack \<Rightarrow> bool list \<Rightarrow> cmp_result" where
  "u_compare 0 hst h w_left w_right strict ignore_order = None"
| "u_compare (Suc n) hst h w_left w_right strict ignore_order =
     compare_body (\<lambda>l r s i. u_compare_aggregates n hst h l r s i) hst h w_left w_right strict
       ignore_order"
| "u_compare_aggregates 0 hst h w_left w_right strict ignore_order = None"
| "u_compare_aggregates (Suc n) hst h w_left w_right strict ignore_order =
     aggregates_while n hst h ignore_order [Some (Obj w_left), Some (Obj w_right)] [strict]"
| "aggregates_while 0 hst h ignore_order obj_st strict_st = None"
| "aggregates_while (Suc n) hst h ignore_order obj_st strict_st =
     (if obj_st = [] then ret 0
      else
        (case loop_step (\<lambda>a b s i. u_compare n hst h a b s i) hst h ignore_order obj_st strict_st of
           Stop res \<Rightarrow> res
         | Continue obj_st' strict_st' \<Rightarrow> aggregates_while n hst h ignore_order obj_st' strict_st'))"



text \<open>
  A heap of scalars: the strings "10" and "9" at 1 and 2, then an integer, a float, a
  boolean, null, an array of two of them and an instance.
\<close>

definition scalar_heap :: heap where
  "scalar_heap =
     \<lparr>objs = (\<lambda>a. if a = 1 then W_StringObject ''10''
                  else if a = 2 then W_StringObject ''9''
                  else if a = 3 then W_IntObject 7
                  else if a = 4 then W_FloatObject (Fin (3 / 2))
                  else if a = 5 then W_BoolObject True
                  else if a = 7 then W_ArrayObject [(IntKey 0, Obj 3), (StrKey ''k'', Ref 4)]
                  else if a = 8 then W_InstanceObject \<lparr>klass_id = 0, klass_name = ''stdClass''\<rparr>
                                       [(''x'', Ref 3)]
                  else W_NullObject),
      cells = (\<lambda>r. r)\<rparr>"

text \<open>
  The values the comparator compares as a float \<open>NaN\<close>: the float \<open>NaN\<close> itself, and a
  resource or constant whose numeric projection, left to the host, is \<open>NaN\<close>.
\<close>

definition compares_as_nan :: "host \<Rightarrow> obj \<Rightarrow> bool" where
  "compares_as_nan hst w =
     (case w of
        W_FloatObject f \<Rightarrow> f = NaN
      | W_IntObject i \<Rightarrow> False
      | W_StringObject s \<Rightarrow> False
      | W_ArrayObject items \<Rightarrow> False
      | W_NullObject \<Rightarrow> False
      | W_BoolObject b \<Rightarrow> False
      | W_InstanceObject k attrs \<Rightarrow> False
      | _ \<Rightarrow> host_as_number hst w = NFloat NaN)"






section \<open>Verified properties\<close>

lemmas tp_defs = tp_int_def tp_float_def tp_str_def tp_array_def tp_null_def tp_bool_def
  tp_object_def

subsection \<open>Modulo\<close>

lemma trunc_rem_abs: "trunc_rem l r = sgn l * (\<bar>l\<bar> mod \<bar>r\<bar>)"
proof -
  have "\<bar>l\<bar> = \<bar>r\<bar> * (\<bar>l\<bar> div \<bar>r\<bar>) + \<bar>l\<bar> mod \<bar>r\<bar>" by simp
  then have "sgn l * \<bar>l\<bar> = sgn l * (\<bar>r\<bar> * (\<bar>l\<bar> div \<bar>r\<bar>)) + sgn l * (\<bar>l\<bar> mod \<bar>r\<bar>)"
    by (metis distrib_left)
  moreover have "sgn l * \<bar>l\<bar> = l" by (simp add: sgn_if)
  moreover have "sgn l * (\<bar>r\<bar> * (\<bar>l\<bar> div \<bar>r\<bar>)) = trunc_quot l r * r"
    unfolding trunc_quot_def by (simp add: sgn_if)
  ultimately show ?thesis unfolding trunc_rem_def by linarith
qed

lemma u_mod_rem:
  assumes "r \<noteq> 0"
  shows "u_mod e l r = (W_IntObject (trunc_rem l r), e)"
proof (cases "r = - 1")
  case True
  then show ?thesis by (simp add: u_mod_def trunc_rem_abs)
next
  case False
  have z: "(if l mod r \<noteq> 0 \<and> ((l < 0 \<and> r > 0) \<or> (l > 0 \<and> r < 0)) then l mod r - r else l mod r)
           = sgn l * (\<bar>l\<bar> mod \<bar>r\<bar>)"
  proof -
    consider "l = 0" | "l > 0" "r > 0" | "l < 0" "r > 0" | "l > 0" "r < 0" | "l < 0" "r < 0"
      using assms by linarith
    then show ?thesis
    proof cases
      case 1 then show ?thesis by simp
    next
      case 2 then show ?thesis by simp
    next
      case 3 then show ?thesis by (simp add: zmod_zminus1_eq_if)
    next
      case 4 then show ?thesis by (simp add: zmod_zminus2_eq_if)
    next
      case 5 then show ?thesis by (simp add: mod_minus_minus)
    qed
  qed
  show ?thesis using assms False z by (simp add: u_mod_def trunc_rem_abs Let_def)
qed

lemma trunc_rem_bound: "r \<noteq> 0 \<Longrightarrow> \<bar>trunc_rem l r\<bar> < \<bar>r\<bar>"
  by (simp add: trunc_rem_abs abs_mult sgn_if)

lemma trunc_rem_sign: "trunc_rem l r = 0 \<or> sgn (trunc_rem l r) = sgn l"
proof (cases "\<bar>l\<bar> mod \<bar>r\<bar> = 0")
  case True
  then show ?thesis by (simp add: trunc_rem_abs)
next
  case False
  have "0 \<le> \<bar>l\<bar> mod \<bar>r\<bar>"
    by (cases "r = 0") simp_all
  with False have "0 < \<bar>l\<bar> mod \<bar>r\<bar>" by linarith
  then show ?thesis by (simp add: trunc_rem_abs sgn_mult)
qed

text \<open>
  C3. Modulo on the coerced integers: a zero divisor warns "Division by zero" and gives
  \<open>false\<close>; the divisor \<open>-1\<close> gives \<open>Int 0\<close>; any other divisor gives the remainder of
  the division truncated toward zero, smaller than the divisor in absolute value and zero
  or of the sign of the left operand; \<open>mod(-7, 3) = Int(-1)\<close> and \<open>mod(7, -3) = Int(1)\<close>.
\<close>

theorem mod_truncates_toward_zero:
  "u_mod e l 0 = (W_BoolObject False, e @ [Warn ''Division by zero''])
   \<and> u_mod e l (- 1) = (W_IntObject 0, e)
   \<and> (r \<noteq> 0 \<longrightarrow>
        u_mod e l r = (W_IntObject (trunc_rem l r), e)
        \<and> \<bar>trunc_rem l r\<bar> < \<bar>r\<bar>
        \<and> (trunc_rem l r = 0 \<or> sgn (trunc_rem l r) = sgn l))
   \<and> mod_op hst e (W_IntObject l) (W_IntObject r) = Inr (u_mod e l r)
   \<and> mod_op hst e (W_IntObject (- 7)) (W_IntObject 3) = Inr (W_IntObject (- 1), e)
   \<and> mod_op hst e (W_IntObject 7) (W_IntObject (- 3)) = Inr (W_IntObject 1, e)
   \<and> mod_op hst e (W_IntObject 7) (W_IntObject 0)
       = Inr (W_BoolObject False, e @ [Warn ''Division by zero''])"
proof -
  have a: "u_mod e l 0 = (W_BoolObject False, e @ [Warn ''Division by zero''])"
    by (simp add: u_mod_def warn_def)
  have b: "u_mod e l (- 1) = (W_IntObject 0, e)"
    by (simp add: u_mod_def)
  have c: "mod_op hst e (W_IntObject x) (W_IntObject y) = Inr (u_mod e x y)" for x y
    by (simp add: mod_op_def force_int_def int_w_def)
  have d: "u_mod e (- 7) 3 = (W_IntObject (- 1), e)" "u_mod e 7 (- 3) = (W_IntObject 1, e)"
    "u_mod e 7 0 = (W_BoolObject False, e @ [Warn ''Division by zero''])"
    by (simp_all add: u_mod_def warn_def)
  show ?thesis
    using a b c d u_mod_rem [of r e l] trunc_rem_bound [of r l] trunc_rem_sign [of l r]
    by simp
qed

theorem mod_truncates_toward_zero_witness:
  "u_mod [] (- 7) 3 = (W_IntObject (trunc_rem (- 7) 3), [])
   \<and> \<bar>trunc_rem (- 7) 3\<bar> < \<bar>3 :: int\<bar>
   \<and> trunc_rem (- 7) 3 = - 1"
  using mod_truncates_toward_zero [of "[]" "- 7" 3]
  by (simp add: trunc_rem_def trunc_quot_def)

subsection \<open>Bitwise operators on strings\<close>

lemma map_nth_upt_zip:
  "n \<le> length xs \<Longrightarrow> n \<le> length ys \<Longrightarrow>
   map (\<lambda>i. f (xs ! i) (ys ! i)) [0..<n] = map (\<lambda>(a, b). f a b) (zip (take n xs) (take n ys))"
  by (rule nth_equalityI) simp_all

lemma map_nth_from: "map (\<lambda>i. xs ! i) [n..<length xs] = drop n xs"
  by (rule nth_equalityI) simp_all

lemma zip_take_min:
  "zip (take (min (length xs) (length ys)) xs) (take (min (length xs) (length ys)) ys) = zip xs ys"
  by (metis min.idem take_all_iff order_refl take_zip length_zip)

lemma or_string_eq:
  "or_string l r = W_StringObject
     (map (\<lambda>(a, b). chr (ord a OR ord b)) (zip l r)
      @ drop (min (length l) (length r)) (if length l < length r then r else l))"
proof (cases "length l < length r")
  case True
  have "map (\<lambda>i. chr (ord (r ! i) OR ord (l ! i))) [0..<length l]
        = map (\<lambda>(a, b). chr (ord a OR ord b)) (zip (take (length l) r) (take (length l) l))"
    using True by (intro map_nth_upt_zip) simp_all
  also have "\<dots> = map (\<lambda>(a, b). chr (ord a OR ord b)) (zip l r)"
    by (rule nth_equalityI) (use True in \<open>simp_all add: or.commute\<close>)
  finally show ?thesis using True
    by (simp add: or_string_def map_nth_from min_def)
next
  case False
  have "map (\<lambda>i. chr (ord (l ! i) OR ord (r ! i))) [0..<length r]
        = map (\<lambda>(a, b). chr (ord a OR ord b)) (zip (take (length r) l) (take (length r) r))"
    using False by (intro map_nth_upt_zip) simp_all
  also have "\<dots> = map (\<lambda>(a, b). chr (ord a OR ord b)) (zip l r)"
    by (rule nth_equalityI) (use False in simp_all)
  finally show ?thesis using False
    by (simp add: or_string_def map_nth_from min_def)
qed

lemma string_func_eq:
  "string_func f l r = W_StringObject (map (\<lambda>(a, b). chr (f (ord a) (ord b))) (zip l r))"
proof -
  have "map (\<lambda>i. chr (f (ord (l ! i)) (ord (r ! i)))) [0..<min (length l) (length r)]
        = map (\<lambda>(a, b). chr (f (ord a) (ord b)))
            (zip (take (min (length l) (length r)) l) (take (min (length l) (length r)) r))"
    by (intro map_nth_upt_zip) simp_all
  then show ?thesis by (simp add: string_func_def zip_take_min)
qed

text \<open>
  C5. On two strings, bitwise or is the byte-wise OR over the common prefix followed by the
  unchanged tail of the longer string, so its length is the longer length, and
  \<open>or_string("AB", "abcd") = "abcd"\<close>; bitwise and and xor work on the common prefix only, so
  their result has the length of the shorter string.
\<close>

theorem string_bitwise_lengths:
  "or_op hst (W_StringObject l) (W_StringObject r)
     = W_StringObject
         (map (\<lambda>(a, b). chr (ord a OR ord b)) (zip l r)
          @ drop (min (length l) (length r)) (if length l < length r then r else l))
   \<and> length (map (\<lambda>(a, b). chr (ord a OR ord b)) (zip l r)
          @ drop (min (length l) (length r)) (if length l < length r then r else l))
       = max (length l) (length r)
   \<and> or_string ''AB'' ''abcd'' = W_StringObject ''abcd''
   \<and> and_op hst (W_StringObject l) (W_StringObject r)
       = W_StringObject (map (\<lambda>(a, b). chr (ord a AND ord b)) (zip l r))
   \<and> xor_op hst (W_StringObject l) (W_StringObject r)
       = W_StringObject (map (\<lambda>(a, b). chr (ord a XOR ord b)) (zip l r))
   \<and> length (map (\<lambda>(a, b). chr (ord a AND ord b)) (zip l r)) = min (length l) (length r)
   \<and> length (map (\<lambda>(a, b). chr (ord a XOR ord b)) (zip l r)) = min (length l) (length r)"
proof -
  have ex: "or_string ''AB'' ''abcd'' = W_StringObject ''abcd''"
    by code_simp
  have a: "or_op hst (W_StringObject l) (W_StringObject r)
     = W_StringObject
         (map (\<lambda>(a, b). chr (ord a OR ord b)) (zip l r)
          @ drop (min (length l) (length r)) (if length l < length r then r else l))"
    by (simp add: or_op_def or_string_eq)
  have b: "and_op hst (W_StringObject l) (W_StringObject r)
       = W_StringObject (map (\<lambda>(a, b). chr (ord a AND ord b)) (zip l r))"
    by (simp add: and_op_def new_bitwise_def string_func_eq)
  have c: "xor_op hst (W_StringObject l) (W_StringObject r)
       = W_StringObject (map (\<lambda>(a, b). chr (ord a XOR ord b)) (zip l r))"
    by (simp add: xor_op_def new_bitwise_def string_func_eq)
  have d: "length (map (\<lambda>(a, b). chr (ord a OR ord b)) (zip l r)
          @ drop (min (length l) (length r)) (if length l < length r then r else l))
       = max (length l) (length r)"
    by simp
  from a b c d ex show ?thesis
    by (intro conjI) simp_all
qed

subsection \<open>Shifts\<close>

lemma MASK_31_63_eq: "MASK_31_63 t = int (LONG_BIT t) - 1"
  by (cases t) (simp_all add: MASK_31_63_def maxint_def)

lemma and_MASK_31_63: "n AND MASK_31_63 t = n mod int (LONG_BIT t)"
proof (cases t)
  case Bits32
  have "n AND 31 = n AND mask 5" by (simp add: mask_eq_exp_minus_1)
  also have "\<dots> = n mod 32" by (simp add: take_bit_eq_mask [symmetric] take_bit_eq_mod)
  finally show ?thesis using Bits32 by (simp add: MASK_31_63_def maxint_def)
next
  case Bits64
  have "n AND 63 = n AND mask 6" by (simp add: mask_eq_exp_minus_1)
  also have "\<dots> = n mod 64" by (simp add: take_bit_eq_mask [symmetric] take_bit_eq_mod)
  finally show ?thesis using Bits64 by (simp add: MASK_31_63_def maxint_def)
qed

lemma lshift_int:
  "lshift t hst (W_IntObject x) (W_IntObject n)
     = Inr (W_IntObject (intmask t (x * 2 ^ nat (n mod int (LONG_BIT t)))))"
  by (simp add: lshift_def force_int_def int_w_def and_MASK_31_63 push_bit_eq_mult)

lemma rshift_int:
  "rshift t hst (W_IntObject x) (W_IntObject n)
     = Inr (W_IntObject (intmask t (x div 2 ^ nat (n mod int (LONG_BIT t)))))"
  by (simp add: rshift_def force_int_def int_w_def and_MASK_31_63 drop_bit_eq_div)

lemma intmask_range:
  "- (2 ^ (LONG_BIT t - 1)) \<le> intmask t y \<and> intmask t y < 2 ^ (LONG_BIT t - 1)"
proof -
  define W :: int where "W = 2 ^ LONG_BIT t"
  define H :: int where "H = 2 ^ (LONG_BIT t - 1)"
  define m where "m = y mod W"
  have WH: "W = 2 * H"
    unfolding W_def H_def by (cases t) simp_all
  have "0 < W" unfolding W_def by simp
  then have m: "0 \<le> m" "m < W"
    unfolding m_def by simp_all
  have "intmask t y = (if m \<ge> H then m - W else m)"
    by (simp add: intmask_def Let_def W_def H_def m_def)
  then have "- H \<le> intmask t y \<and> intmask t y < H"
    using m WH by (auto simp: not_le)
  then show ?thesis by (simp add: H_def)
qed

lemma intmask_congruent: "(intmask t y - y) mod 2 ^ LONG_BIT t = 0"
proof -
  have "(y mod 2 ^ LONG_BIT t - y) mod 2 ^ LONG_BIT t = 0"
    by (simp add: mod_diff_left_eq)
  moreover have "(y mod 2 ^ LONG_BIT t - 2 ^ LONG_BIT t - y) mod 2 ^ LONG_BIT t = 0"
  proof -
    have "(y mod 2 ^ LONG_BIT t - 2 ^ LONG_BIT t - y) = (y mod 2 ^ LONG_BIT t - y) + (- 1) * 2 ^ LONG_BIT t"
      by simp
    then show ?thesis using calculation by (metis mod_mult_self1)
  qed
  ultimately show ?thesis by (simp add: intmask_def Let_def)
qed

text \<open>
  C6. The shift count is masked with 31 on a 32-bit target and with 63 on a 64-bit one:
  shifting by \<open>n\<close> is shifting by \<open>n mod W\<close>, for \<open>W\<close> the word width, and the result is
  the shifted integer truncated to the signed machine word.
\<close>

theorem shift_count_masked:
  "lshift t hst (W_IntObject x) (W_IntObject n)
     = lshift t hst (W_IntObject x) (W_IntObject (n mod int (LONG_BIT t)))
   \<and> rshift t hst (W_IntObject x) (W_IntObject n)
     = rshift t hst (W_IntObject x) (W_IntObject (n mod int (LONG_BIT t)))
   \<and> MASK_31_63 t = int (LONG_BIT t) - 1
   \<and> LONG_BIT t \<in> {32, 64}
   \<and> lshift t hst (W_IntObject x) (W_IntObject n)
     = Inr (W_IntObject (intmask t (x * 2 ^ nat (n mod int (LONG_BIT t)))))
   \<and> rshift t hst (W_IntObject x) (W_IntObject n)
     = Inr (W_IntObject (intmask t (x div 2 ^ nat (n mod int (LONG_BIT t)))))
   \<and> - (2 ^ (LONG_BIT t - 1)) \<le> intmask t y \<and> intmask t y < 2 ^ (LONG_BIT t - 1)
   \<and> (intmask t y - y) mod 2 ^ LONG_BIT t = 0"
proof -
  have "LONG_BIT t \<in> {32, 64}" by (cases t) simp_all
  then show ?thesis
    using intmask_range [of t y] intmask_congruent [of t y]
    by (simp add: lshift_int rshift_int MASK_31_63_eq)
qed

subsection \<open>Lenient integer coercion\<close>

text \<open>
  C8. The scanner of \<open>_force_int_from_str\<close> accepts a sign at any position, not only in
  front: for \<open>"1-2"\<close> it collects \<open>"1-2"\<close> and \<open>int\<close> raises \<open>ValueError\<close>, where the
  claim promises the integer 1 without error; a lone \<open>"-"\<close> fails the same way. A
  well-shaped prefix is read as claimed.
\<close>

theorem force_int_sign_anywhere:
  "u_force_int_from_str ''1-2'' = Inl ValueError
   \<and> force_int hst (W_StringObject ''1-2'') = Inl ValueError
   \<and> u_force_int_from_str ''-'' = Inl ValueError
   \<and> u_force_int_from_str '' -12abc'' = Inr (- 12)"
proof -
  have "u_force_int_from_str ''1-2'' = Inl ValueError" by code_simp
  moreover have "u_force_int_from_str ''-'' = Inl ValueError" by code_simp
  moreover have "u_force_int_from_str '' -12abc'' = Inr (- 12)" by code_simp
  ultimately show ?thesis by (simp add: force_int_def)
qed

subsection \<open>Type names\<close>

text \<open>
  C9, as amended. \<open>get_type_name\<close> returns the table entry of the tag in lower case, so
  the sixteen names are those of the claim except that tag 4 gives \<open>"null"\<close>;
  \<open>gettypename\<close> returns the same string for the tag of the value, except for an object,
  which gives \<open>"instance of "\<close> followed by its class name.
\<close>

theorem type_names_lowercase:
  "map get_type_name [0..<16]
     = [Inr ''integer'', Inr ''double'', Inr ''string'', Inr ''array'', Inr ''null'',
        Inr ''boolean'', Inr ''object'', Inr ''resource'', Inr ''resource'', Inr ''resource'',
        Inr ''resource'', Inr ''resource'', Inr ''constant'', Inr ''delayed constant'',
        Inr ''resource'', Inr ''resource'']
   \<and> gettypename h w
     = (case deref_obj h w of
          W_InstanceObject k attrs \<Rightarrow> Inr (''instance of '' @ klass_name k)
        | v \<Rightarrow> get_type_name (tp v))"
proof -
  have "map get_type_name [0..<16]
     = [Inr ''integer'', Inr ''double'', Inr ''string'', Inr ''array'', Inr ''null'',
        Inr ''boolean'', Inr ''object'', Inr ''resource'', Inr ''resource'', Inr ''resource'',
        Inr ''resource'', Inr ''resource'', Inr ''constant'', Inr ''delayed constant'',
        Inr ''resource'', Inr ''resource'']"
    by code_simp
  moreover have "gettypename h w
     = (case deref_obj h w of
          W_InstanceObject k attrs \<Rightarrow> Inr (''instance of '' @ klass_name k)
        | v \<Rightarrow> get_type_name (tp v))"
    by (simp add: gettypename_def get_type_name_def Let_def split: obj.splits)
  ultimately show ?thesis by simp
qed

text \<open>
  C9 as stated fails at the tag of \<open>Null\<close>: the name returned is not \<open>"NULL"\<close>.
\<close>

theorem type_name_null_counterexample: "get_type_name 4 \<noteq> Inr ''NULL''"
proof -
  have "get_type_name 4 = Inr ''null''" by code_simp
  then show ?thesis by simp
qed

subsection \<open>Slicing\<close>

lemma array_set_fresh: "k \<notin> fst ` set arr \<Longrightarrow> array_set arr k v = arr @ [(k, v)]"
  by (induction arr) auto

lemma foldl_array_set_distinct:
  "distinct (map fst ps) \<Longrightarrow> fst ` set ps \<inter> fst ` set acc = {} \<Longrightarrow>
   foldl (\<lambda>arr (k, v). array_set arr k v) acc ps = acc @ ps"
proof (induction ps arbitrary: acc)
  case Nil
  then show ?case by simp
next
  case (Cons p ps)
  obtain k v where p: "p = (k, v)" by (cases p)
  have fresh: "k \<notin> fst ` set acc" using Cons.prems(2) p by auto
  have "foldl (\<lambda>arr (k, v). array_set arr k v) (acc @ [(k, v)]) ps = (acc @ [(k, v)]) @ ps"
    using Cons.prems p by (intro Cons.IH) (auto simp: image_Un)
  then show ?case using p fresh by (simp add: array_set_fresh)
qed

lemma new_array_from_pairs_distinct:
  "distinct (map fst ps) \<Longrightarrow> new_array_from_pairs ps = W_ArrayObject ps"
  using foldl_array_set_distinct [of ps "[]"] by (simp add: new_array_from_pairs_def)

lemma window_Cons:
  "drop (nat (s - idx)) (take (nat (e - idx)) (p # items))
     = (if s \<le> idx \<and> idx < e then [p] else []) @ drop (nat (s - (idx + 1))) (take (nat (e - (idx + 1))) items)"
proof (cases "idx < e")
  case True
  then have e: "nat (e - idx) = Suc (nat (e - (idx + 1)))" by simp
  show ?thesis
  proof (cases "s \<le> idx")
    case True
    then have "nat (s - idx) = 0" "nat (s - (idx + 1)) = 0" by simp_all
    then show ?thesis using e True \<open>idx < e\<close> by simp
  next
    case False
    then have "nat (s - idx) = Suc (nat (s - (idx + 1)))" by simp
    then show ?thesis using e False by simp
  qed
next
  case False
  then have "nat (e - idx) = 0" "nat (e - (idx + 1)) = 0" by simp_all
  then show ?thesis using False by simp
qed

lemma renumber_Cons:
  "zip (map (\<lambda>i. IntKey (nxt + int i)) [0..<Suc n]) (v # vs)
     = (IntKey nxt, v) # zip (map (\<lambda>i. IntKey (nxt + 1 + int i)) [0..<n]) vs"
proof -
  have "[0..<Suc n] = 0 # map Suc [0..<n]"
    by (simp add: upt_conv_Cons map_Suc_upt del: upt_Suc)
  then have "map (\<lambda>i. IntKey (nxt + int i)) [0..<Suc n]
      = IntKey nxt # map (\<lambda>i. IntKey (nxt + 1 + int i)) [0..<n]"
    by (simp add: comp_def add.assoc del: upt_Suc)
  then show ?thesis by (simp del: upt_Suc)
qed

lemma slice_loop_renumber:
  "slice_loop s n False False items idx nxt res
     = res @ zip (map (\<lambda>i. IntKey (nxt + int i))
                    [0..<length (drop (nat (s - idx)) (take (nat (s + n - idx)) items))])
               (map snd (drop (nat (s - idx)) (take (nat (s + n - idx)) items)))"
proof (induction items arbitrary: idx nxt res)
  case Nil
  then show ?case by simp
next
  case (Cons p items)
  obtain k v where p: "p = (k, v)" by (cases p)
  show ?case
  proof (cases "s \<le> idx \<and> idx < s + n")
    case True
    then have c: "(s \<le> idx \<and> idx < s + n) = True" by simp
    have win: "drop (nat (s - idx)) (take (nat (s + n - idx)) (p # items))
        = p # drop (nat (s - (idx + 1))) (take (nat (s + n - (idx + 1))) items)"
      using window_Cons [of s idx "s + n" p items] by (simp only: c if_True append_Cons append_Nil)
    show ?thesis
      unfolding win by (simp add: p c Cons.IH renumber_Cons del: upt_Suc)
  next
    case False
    then have c: "(s \<le> idx \<and> idx < s + n) = False" by simp
    have win: "drop (nat (s - idx)) (take (nat (s + n - idx)) (p # items))
        = drop (nat (s - (idx + 1))) (take (nat (s + n - (idx + 1))) items)"
      using window_Cons [of s idx "s + n" p items] by (simp only: c if_False append_Nil)
    show ?thesis
      unfolding win by (simp add: p c Cons.IH del: upt_Suc)
  qed
qed

lemma distinct_renumber: "distinct (map fst (zip (map (\<lambda>i. IntKey (int i)) [0..<length vs]) vs))"
proof -
  have "map fst (zip (map (\<lambda>i. IntKey (int i)) [0..<length vs]) vs) = map (\<lambda>i. IntKey (int i)) [0..<length vs]"
    by simp
  moreover have "distinct (map (\<lambda>i. IntKey (int i)) [0..<length vs])"
    by (simp add: distinct_map inj_on_def)
  ultimately show ?thesis by simp
qed

text \<open>
  C7. A negative start counts from the end: slicing the four-element list array at start
  \<open>-2\<close> with length 1 and \<open>keep_keys = false\<close> gives the one-element array holding the
  third element under the integer key 0. In general, with \<open>keep_keys = false\<close> (and the
  default \<open>keep_str_keys = false\<close>) the kept elements are the window of the array in
  insertion order, numbered from 0.
\<close>

theorem slice_renumbers_from_zero:
  "slice [(IntKey 0, a), (IntKey 1, b), (IntKey 2, c), (IntKey 3, d)] (- 2) 1 False False
     = W_ArrayObject [(IntKey 0, c)]
   \<and> slice items start shift False False
     = (if shift = 0 \<or> items = [] \<or> start > int (length items) then W_ArrayObject []
        else
          (let first = (if start < 0 then int (length items) + start else start);
               count = (if shift < 0 then int (length items) + shift - first else shift);
               kept = map snd (drop (nat first) (take (nat (first + count)) items))
           in W_ArrayObject (zip (map (\<lambda>i. IntKey (int i)) [0..<length kept]) kept)))"
proof -
  have ex: "slice [(IntKey 0, a), (IntKey 1, b), (IntKey 2, c), (IntKey 3, d)] (- 2) 1 False False
     = W_ArrayObject [(IntKey 0, c)]"
    by (simp add: slice_def new_array_from_pairs_def)
  have gen: "new_array_from_pairs (slice_loop s n False False items 0 0 [])
      = W_ArrayObject (zip (map (\<lambda>i. IntKey (int i))
                              [0..<length (map snd (drop (nat s) (take (nat (s + n)) items)))])
                           (map snd (drop (nat s) (take (nat (s + n)) items))))" for s n
    using distinct_renumber [of "map snd (drop (nat s) (take (nat (s + n)) items))"]
    by (simp add: slice_loop_renumber new_array_from_pairs_distinct)
  have "slice items start shift False False
     = (if shift = 0 \<or> items = [] \<or> start > int (length items) then W_ArrayObject []
        else
          (let first = (if start < 0 then int (length items) + start else start);
               count = (if shift < 0 then int (length items) + shift - first else shift);
               kept = map snd (drop (nat first) (take (nat (first + count)) items))
           in W_ArrayObject (zip (map (\<lambda>i. IntKey (int i)) [0..<length kept]) kept)))"
    unfolding slice_def Let_def gen by (simp add: new_array_from_list_def)
  with ex show ?thesis by simp
qed

subsection \<open>Callback resolution\<close>

text \<open>
  C10. For an array whose length is not 2, whatever its elements are, \<open>_get_callback\<close>
  raises \<open>InvalidCallback\<close> with the message "array must have exactly two members";
  \<open>get_callback\<close> then returns the null invocable, and warns only when
  \<open>give_warning\<close> is true.
\<close>

theorem callback_array_needs_two_members:
  assumes "objs h a = W_ArrayObject items" and "length items \<noteq> 2"
  shows "u_get_callback hst h a = Inl (InvalidCallback ''array must have exactly two members'')
    \<and> get_callback hst h e fname arg_no a True
        = (Inr None, e @ [Warn (fname @ ''() expects parameter '' @ str_of_int arg_no
             @ '' to be a valid callback, array must have exactly two members'')])
    \<and> get_callback hst h e fname arg_no a False = (Inr None, e)"
  using assms by (simp add: u_get_callback_def get_callback_def warn_def)

theorem callback_array_needs_two_members_witness:
  "u_get_callback empty_host \<lparr>objs = (\<lambda>_. W_ArrayObject []), cells = (\<lambda>r. r)\<rparr> 0
     = Inl (InvalidCallback ''array must have exactly two members'')
   \<and> get_callback empty_host \<lparr>objs = (\<lambda>_. W_ArrayObject []), cells = (\<lambda>r. r)\<rparr> []
         ''usort'' 2 0 True
     = (Inr None, [Warn ''usort() expects parameter 2 to be a valid callback, array must have exactly two members''])
   \<and> get_callback empty_host \<lparr>objs = (\<lambda>_. W_ArrayObject []), cells = (\<lambda>r. r)\<rparr> []
         ''usort'' 2 0 False
     = (Inr None, [])"
  using callback_array_needs_two_members
    [of "\<lparr>objs = (\<lambda>_. W_ArrayObject []), cells = (\<lambda>r. r)\<rparr>" 0 "[]" empty_host "[]" "''usort''" 2]
  by (simp add: str_of_int_def)

subsection \<open>The comparator on numbers\<close>

text \<open>
  On two numbers of the heap \<open>_compare\<close> computes \<open>compare_numbers\<close>: this is the call it
  makes on the numbers read from two strings and on the numeric projections.
\<close>

lemma compare_on_numbers:
  assumes "deref_obj h w_left = wrap_number x" and "deref_obj h w_right = wrap_number y"
  shows "u_compare (Suc n) hst h w_left w_right False io = Some (Inr (compare_numbers x y io))"
  using assms
  by (cases x; cases y)
     (simp_all add: compare_body_def deref_obj_def wrap_number_def tp_defs float_w_def int_w_def
        compare_numbers_def ret_def)

text \<open>
  An integer is rounded to the nearest double before it is compared with a float.
\<close>

lemma float_of_int_rounds:
  "float_of_int (2 ^ 53 + 1) = Fin (2 ^ 53) \<and> float_of_int (2 ^ 53 + 3) = Fin (2 ^ 53 + 4)
   \<and> float_of_int (- (2 ^ 53 + 1)) = Fin (- (2 ^ 53)) \<and> float_of_int 7 = Fin 7"
  by code_simp

lemma compare_int_with_float_rounds:
  assumes "deref_obj h w_left = W_IntObject (2 ^ 53 + 1)"
    and "deref_obj h w_right = W_FloatObject (Fin (2 ^ 53))"
  shows "u_compare (Suc n) hst h w_left w_right False False = Some (Inr 0)"
proof -
  have "float_of_int (2 ^ 53 + 1) = Fin (2 ^ 53)"
    using float_of_int_rounds by simp
  then show ?thesis
    using assms
    by (simp add: compare_body_def deref_obj_def tp_defs float_w_def my_cmp_float_def ret_def)
qed

subsection \<open>The comparator on cyclic arrays\<close>






















subsection \<open>The comparator on strings\<close>

lemma convert_10: "convert_string_to_number ''10'' = (NInt 10, True)"
  by code_simp

lemma convert_9: "convert_string_to_number ''9'' = (NInt 9, True)"
  by code_simp

lemma str_10_less_9: "''10'' < ''9''"
  by code_simp

text \<open>
  C1. On the strings "10" and "9" the loose comparison returns 1: both parse fully as
  numbers (the integers 10 and 9) and are compared as numbers. The strict comparison of
  the same pair skips the promotion, compares the bytes lexicographically and returns -1,
  since "10" is below "9" as a byte string.
\<close>

theorem numeric_strings_loose_and_strict:
  assumes l: "deref_obj h w_left = W_StringObject ''10''"
    and r: "deref_obj h w_right = W_StringObject ''9''"
  shows "u_compare (Suc n) hst h w_left w_right False False = Some (Inr 1)
    \<and> u_compare (Suc n) hst h w_left w_right True False = Some (Inr (- 1))
    \<and> convert_string_to_number ''10'' = (NInt 10, True)
    \<and> convert_string_to_number ''9'' = (NInt 9, True)
    \<and> ''10'' < ''9''"
proof -
  have loose: "u_compare (Suc n) hst h w_left w_right False False = Some (Inr 1)"
    using l r
    by (simp add: compare_body_def deref_obj_def tp_defs str_w_def convert_10 convert_9
        compare_numbers_def my_cmp_def ret_def)
  have strict: "u_compare (Suc n) hst h w_left w_right True False = Some (Inr (- 1))"
    using l r str_10_less_9
    by (simp add: compare_body_def deref_obj_def tp_defs str_w_def my_cmp_def ret_def)
  show ?thesis using loose strict convert_10 convert_9 str_10_less_9 by simp
qed

theorem numeric_strings_loose_and_strict_witness:
  "u_compare 1 empty_host scalar_heap (Obj 1) (Obj 2) False False = Some (Inr 1)
   \<and> u_compare 1 empty_host scalar_heap (Obj 1) (Obj 2) True False = Some (Inr (- 1))"
  using numeric_strings_loose_and_strict [of scalar_heap "Obj 1" "Obj 2" 0 empty_host]
  by (simp add: scalar_heap_def deref_obj_def deref_def)

subsection \<open>Reflexivity of the comparator\<close>

lemma my_cmp_refl: "my_cmp x x io = 0"
  by (simp add: my_cmp_def)

lemma my_cmp_float_refl: "f \<noteq> NaN \<Longrightarrow> my_cmp_float f f io = 0"
  by (cases f) (simp_all add: my_cmp_float_def)

lemma compare_numbers_refl: "x \<noteq> NFloat NaN \<Longrightarrow> compare_numbers x x io = 0"
  by (cases x) (simp_all add: compare_numbers_def my_cmp_refl my_cmp_float_refl)

lemma convert_not_nan: "fst (convert_string_to_number s) \<noteq> NFloat NaN"
  by (simp add: convert_string_to_number_def Let_def split: prod.splits list.splits option.splits)

lemma compare_string_refl:
  assumes "objs h (deref h v) = W_StringObject s"
  shows "compare_body agg hst h v v strict io = Some (Inr 0)"
proof -
  obtain x valid where c: "convert_string_to_number s = (x, valid)"
    by (cases "convert_string_to_number s")
  have "x \<noteq> NFloat NaN" using convert_not_nan [of s] c by simp
  then show ?thesis
    using assms c
    by (simp add: compare_body_def tp_defs str_w_def my_cmp_refl compare_numbers_refl ret_def)
qed

lemma compare_projected_refl:
  assumes "tp (objs h (deref h v)) \<in> {7, 8, 9, 10, 11, 12, 13, 14, 15}"
    and "as_number hst (objs h (deref h v)) \<noteq> NFloat NaN"
  shows "compare_body agg hst h v v strict io = Some (Inr 0)"
  using assms
  by (auto simp add: compare_body_def tp_defs compare_numbers_refl ret_def)

text \<open>
  C4. Comparing a value with itself gives 0, in every mode of the comparator, for every
  value that is not a float \<open>NaN\<close>: integers, floats, strings, arrays, null, booleans and
  objects, and resources and constants as long as the host does not project them to
  \<open>NaN\<close>.
\<close>

theorem compare_reflexive:
  assumes "\<not> compares_as_nan hst (deref_obj h v)"
  shows "u_compare (Suc n) hst h v v strict io = Some (Inr 0)"
proof (cases "objs h (deref h v)")
  case (W_IntObject i)
  then show ?thesis
    by (simp add: compare_body_def tp_defs int_w_def my_cmp_refl ret_def)
next
  case (W_FloatObject f)
  then have "f \<noteq> NaN" using assms by (simp add: compares_as_nan_def deref_obj_def)
  then show ?thesis using W_FloatObject
    by (simp add: compare_body_def tp_defs float_w_def my_cmp_float_refl ret_def)
next
  case (W_StringObject s)
  then show ?thesis by (simp add: compare_string_refl)
next
  case (W_ArrayObject items)
  then show ?thesis by (simp add: compare_body_def tp_defs ret_def)
next
  case W_NullObject
  then show ?thesis by (simp add: compare_body_def tp_defs ret_def)
next
  case (W_BoolObject b)
  then show ?thesis by (simp add: compare_body_def tp_defs my_cmp_refl ret_def)
next
  case (W_InstanceObject k attrs)
  then show ?thesis by (simp add: compare_body_def tp_defs ret_def)
next
  case (W_Resource k i)
  then have "as_number hst (objs h (deref h v)) \<noteq> NFloat NaN"
    using assms by (simp add: compares_as_nan_def deref_obj_def as_number_def)
  moreover have "tp (objs h (deref h v)) \<in> {7, 8, 9, 10, 11, 12, 13, 14, 15}"
    using W_Resource by (cases k) simp_all
  ultimately show ?thesis by (simp add: compare_projected_refl)
next
  case W_Constant
  then have "as_number hst (objs h (deref h v)) \<noteq> NFloat NaN"
    using assms by (simp add: compares_as_nan_def deref_obj_def as_number_def)
  then show ?thesis using W_Constant by (simp add: compare_projected_refl)
next
  case DelayedClassConstant
  then have "as_number hst (objs h (deref h v)) \<noteq> NFloat NaN"
    using assms by (simp add: compares_as_nan_def deref_obj_def as_number_def)
  then show ?thesis using DelayedClassConstant by (simp add: compare_projected_refl)
qed

theorem compare_reflexive_witness:
  "u_compare 1 empty_host scalar_heap (Obj 1) (Obj 1) False False = Some (Inr 0)
   \<and> u_compare 1 empty_host scalar_heap (Ref 4) (Ref 4) False False = Some (Inr 0)
   \<and> u_compare 1 empty_host scalar_heap (Obj 7) (Obj 7) False False = Some (Inr 0)
   \<and> u_compare 1 empty_host scalar_heap (Obj 8) (Obj 8) True False = Some (Inr 0)"
  using compare_reflexive [of empty_host scalar_heap "Obj 1" 0 False False]
    compare_reflexive [of empty_host scalar_heap "Ref 4" 0 False False]
    compare_reflexive [of empty_host scalar_heap "Obj 7" 0 False False]
    compare_reflexive [of empty_host scalar_heap "Obj 8" 0 True False]
  by (simp add: compares_as_nan_def scalar_heap_def deref_obj_def deref_def)

lemma nan_not_reflexive:
  "deref_obj h v = W_FloatObject NaN \<Longrightarrow>
   u_compare (Suc n) hst h v v strict io = Some (Inr (if io then - 1 else 1))"
  by (simp add: compare_body_def deref_obj_def tp_defs float_w_def my_cmp_float_def ret_def)

end
